theory Spec2Isabelle
  imports Main "HOL-Library.Word"
begin

unbundle bit_operations_syntax

section \<open>Bytes, errors and panics\<close>

text \<open>
  A Go \<^verbatim>\<open>[]byte\<close> is a list of 8-bit words; a nil slice and an empty slice are both
  the empty list. A Go function of this package ends in one of three ways: it returns a
  value, it returns an error (the \<^verbatim>\<open>error\<close> result is not nil), or it panics. The
  last two are kept apart in \<open>failure\<close>, and a fallible function has the result type
  \<open>failure + 'a\<close>.
\<close>

type_synonym byte = "8 word"
type_synonym bytes = "byte list"

datatype error =
    DecodingSecretKey
  | DecodingPeerEphemeralPublicKey
  | DecodingPeerPublicKey
  | InvalidLength

datatype panic = InvalidSelector | EncodingFailure | IndexOutOfRange

datatype failure = Err error | Panic panic

definition bytes_of :: "string \<Rightarrow> bytes" where
  "bytes_of s = map (\<lambda>c. of_nat (of_char c)) s"

text \<open>
  \<^verbatim>\<open>utils.Concatenate(length, input...)\<close> of the cryptotools library: the inputs appended
  in order; the first argument only sizes the buffer (0: computed).
\<close>

definition Concatenate :: "nat \<Rightarrow> bytes list \<Rightarrow> bytes" where
  "Concatenate n input = concat input"

section \<open>Constants of the internal package\<close>

text \<open>
  Modelled from the spec: the tag constants of \<^verbatim>\<open>internal\<close> are not among the sources;
  section 4.4 of the specification gives their values.
\<close>

definition LabelPrefix :: bytes where "LabelPrefix = bytes_of ''OPAQUE-''"
definition Tag3DH :: bytes where "Tag3DH = bytes_of ''3DH''"
definition TagHandshake :: bytes where "TagHandshake = bytes_of ''HandshakeSecret''"
definition TagSession :: bytes where "TagSession = bytes_of ''SessionKey''"
definition TagMacServer :: bytes where "TagMacServer = bytes_of ''ServerMAC''"
definition TagMacClient :: bytes where "TagMacClient = bytes_of ''ClientMAC''"
definition TagEncServer :: bytes where "TagEncServer = bytes_of ''HandshakeEncrypt''"
definition EncryptionTag :: bytes where "EncryptionTag = bytes_of ''EncryptInfo''"

section \<open>Encoding\<close>

text \<open>
  Modelled from the spec: \<^verbatim>\<open>internal/encoding\<close> is not among the sources. Section 4.1:
  I2OSP(n, k) is the big-endian unsigned k-byte encoding of n and fails if n is at least
  2^(8k); OS2IP is its inverse; EncodeVector prefixes the length. Every caller uses the
  result of I2OSP as a byte slice with no error to test, so the failure is a panic. No
  unsigned encoding of a negative n exists: it fails as well. \<^verbatim>\<open>EncodeVector\<close> with one
  argument is the 2-byte form (all lengths on the wire are 2 bytes unless noted).
\<close>

fun big_endian :: "nat \<Rightarrow> nat \<Rightarrow> bytes" where
  "big_endian 0 n = []"
| "big_endian (Suc k) n = big_endian k (n div 256) @ [of_nat (n mod 256)]"

definition I2OSP :: "int \<Rightarrow> nat \<Rightarrow> failure + bytes" where
  "I2OSP n k =
     (if n < 0 \<or> 2 ^ (8 * k) \<le> n then Inl (Panic EncodingFailure)
      else Inr (big_endian k (nat n)))"

definition OS2IP :: "bytes \<Rightarrow> int" where
  "OS2IP b = foldl (\<lambda>acc x. acc * 256 + uint x) 0 b"

definition EncodeVectorLen :: "bytes \<Rightarrow> nat \<Rightarrow> failure + bytes" where
  "EncodeVectorLen b lenBytes =
     (case I2OSP (int (length b)) lenBytes of
        Inl f \<Rightarrow> Inl f
      | Inr l \<Rightarrow> Inr (l @ b))"

definition EncodeVector :: "bytes \<Rightarrow> failure + bytes" where
  "EncodeVector b = EncodeVectorLen b 2"

text \<open>
  Modelled from the spec: \<^verbatim>\<open>internal.Xor\<close> is not among the sources; section 4.4 has
  the info XOR-ed byte by byte with the pad. \<open>cryptInfo\<close> asks the KDF for a pad as long
  as the info, so both arguments have one length whenever the KDF keeps its contract.
\<close>

definition Xor :: "bytes \<Rightarrow> bytes \<Rightarrow> bytes" where
  "Xor a b = map2 (XOR) a b"

section \<open>The configuration (package opaque)\<close>

text \<open>
  Modelled from the spec: the identifier types of the cryptotools library
  (\<^verbatim>\<open>hash.Hashing\<close>, \<^verbatim>\<open>mhf.Identifier\<close>) are not among the sources; section 3 has
  seven 1-byte identifiers. \<^verbatim>\<open>Group\<close> and \<^verbatim>\<open>Mode\<close> are declared as bytes in the
  source. \<^verbatim>\<open>NonceLen\<close> is a Go int.
\<close>

record Configuration =
  OprfGroup :: byte
  KDF :: byte
  MAC :: byte
  Hash :: byte
  MHF :: byte
  Mode :: byte
  AKEGroup :: byte
  NonceLen :: int

definition Serialize :: "Configuration \<Rightarrow> failure + bytes" where
  "Serialize c =
     (case I2OSP (NonceLen c) 1 of
        Inl f \<Rightarrow> Inl f
      | Inr [] \<Rightarrow> Inl (Panic IndexOutOfRange)
      | Inr (n # ns) \<Rightarrow>
          Inr [OprfGroup c, KDF c, MAC c, Hash c, MHF c, Mode c, AKEGroup c, n])"

definition DeserializeConfiguration :: "bytes \<Rightarrow> failure + Configuration" where
  "DeserializeConfiguration encoded =
     (if length encoded \<noteq> 8 then Inl (Err InvalidLength)
      else Inr \<lparr>OprfGroup = encoded ! 0, KDF = encoded ! 1, MAC = encoded ! 2,
                Hash = encoded ! 3, MHF = encoded ! 4, Mode = encoded ! 5,
                AKEGroup = encoded ! 6, NonceLen = OS2IP (drop 7 encoded)\<rparr>)"

section \<open>Primitives\<close>

text \<open>
  The group comes from the cryptotools library and is a parameter: scalars \<open>'s\<close>,
  elements \<open>'e\<close>, the base point, scalar multiplication, decoding of scalars and
  elements (\<open>None\<close>: the library's decoding error) and the encoding of an element.
\<close>

record ('s, 'e) Group =
  Base :: "'e"
  Mult :: "'e \<Rightarrow> 's \<Rightarrow> 'e"
  DecodeScalar :: "bytes \<Rightarrow> 's option"
  DecodeElement :: "bytes \<Rightarrow> 'e option"
  Bytes :: "'e \<Rightarrow> bytes"

text \<open>
  Modelled from the spec: the wrappers \<^verbatim>\<open>internal.KDF\<close>, \<^verbatim>\<open>internal.Mac\<close> and
  \<^verbatim>\<open>internal.Hash\<close> are not among the sources; section 6 gives their contracts. The
  functions themselves (HKDF, HMAC, the hash) are parameters. A hash is absorbing: its
  state is what has been written so far, \<open>Write\<close> appends, and \<open>Sum\<close> is the digest of
  everything written, leaving the state as it is.
\<close>

record KDF =
  Extract :: "bytes \<Rightarrow> bytes \<Rightarrow> bytes"
  Expand :: "bytes \<Rightarrow> bytes \<Rightarrow> nat \<Rightarrow> bytes"
  Size :: nat

record Mac =
  MAC :: "bytes \<Rightarrow> bytes \<Rightarrow> bytes"

record Hash =
  digest :: "bytes \<Rightarrow> bytes"
  absorbed :: bytes

definition Write :: "Hash \<Rightarrow> bytes \<Rightarrow> Hash" where
  "Write h b = h\<lparr>absorbed := absorbed h @ b\<rparr>"

definition Sum :: "Hash \<Rightarrow> bytes" where
  "Sum h = digest h (absorbed h)"

record ('s, 'e) Parameters =
  KDF :: KDF
  MAC :: Mac
  Hash :: Hash
  AKEGroup :: "('s, 'e) Group"

text \<open>
  Modelled from the spec: \<^verbatim>\<open>message.KE1\<close> is not among the sources; section 4.4 gives
  its serialization, credential request, client nonce, client ephemeral public key.
\<close>

record KE1 =
  credential_request :: bytes
  client_nonce :: bytes
  client_ephemeral_public :: bytes

definition KE1_Serialize :: "KE1 \<Rightarrow> bytes" where
  "KE1_Serialize m = credential_request m @ client_nonce m @ client_ephemeral_public m"

section \<open>The 3DH core (internal/ake/3dh.go)\<close>

type_synonym selector = bool

definition client :: selector where "client = True"
definition server :: selector where "server = False"

record keys =
  serverMacKey :: bytes
  clientMacKey :: bytes
  handshakeSecret :: bytes
  handshakeEncryptKey :: bytes

text \<open>
  \<open>setValues\<close> draws from the system's randomness when a value is missing. The draws
  of one call are the fields of \<open>Random\<close>: the scalar \<^verbatim>\<open>g.NewScalar().Random()\<close> would
  return and the bytes \<^verbatim>\<open>utils.RandomBytes(n)\<close> would return. A nil scalar is \<open>None\<close>.
\<close>

record 's Random =
  RandomScalar :: "'s"
  RandomBytes :: "int \<Rightarrow> bytes"

definition setValues ::
  "'s Random \<Rightarrow> ('s, 'e) Group \<Rightarrow> 's option \<Rightarrow> bytes \<Rightarrow> int \<Rightarrow> 's \<times> bytes" where
  "setValues rnd g scalar nonce nonceLen =
     (let s = (case scalar of Some sc \<Rightarrow> sc | None \<Rightarrow> RandomScalar rnd);
          n = (if length nonce = 0 then RandomBytes rnd nonceLen else nonce)
      in (s, n))"

definition buildLabel :: "nat \<Rightarrow> bytes \<Rightarrow> bytes \<Rightarrow> failure + bytes" where
  "buildLabel len label ctx =
     (case I2OSP (int len) 2 of
        Inl f \<Rightarrow> Inl f
      | Inr l \<Rightarrow>
          (case EncodeVectorLen (LabelPrefix @ label) 1 of
             Inl f \<Rightarrow> Inl f
           | Inr lv \<Rightarrow>
               (case EncodeVectorLen ctx 1 of
                  Inl f \<Rightarrow> Inl f
                | Inr cv \<Rightarrow> Inr (Concatenate 0 [l, lv, cv]))))"

definition expand :: "KDF \<Rightarrow> bytes \<Rightarrow> bytes \<Rightarrow> bytes" where
  "expand h secret hkdfLabel = Expand h secret hkdfLabel (Size h)"

definition expandLabel :: "KDF \<Rightarrow> bytes \<Rightarrow> bytes \<Rightarrow> bytes \<Rightarrow> failure + bytes" where
  "expandLabel h secret label ctx =
     (case buildLabel (Size h) label ctx of
        Inl f \<Rightarrow> Inl f
      | Inr hkdfLabel \<Rightarrow> Inr (expand h secret hkdfLabel))"

definition deriveSecret :: "KDF \<Rightarrow> bytes \<Rightarrow> bytes \<Rightarrow> bytes \<Rightarrow> failure + bytes" where
  "deriveSecret h secret label ctx = expandLabel h secret label ctx"

definition newInfo ::
  "Hash \<Rightarrow> KE1 \<Rightarrow> bytes \<Rightarrow> bytes \<Rightarrow> bytes \<Rightarrow> bytes \<Rightarrow> bytes \<Rightarrow> (failure + unit) \<times> Hash" where
  "newInfo h ke1 idu ids response nonceS epks =
     (case EncodeVectorLen idu 2 of
        Inl f \<Rightarrow> (Inl f, h)
      | Inr cp \<Rightarrow>
          (case EncodeVectorLen ids 2 of
             Inl f \<Rightarrow> (Inl f, h)
           | Inr sp \<Rightarrow>
               (Inr (), Write h (Concatenate 0
                  [Tag3DH, cp, KE1_Serialize ke1, sp, response, nonceS, epks]))))"

definition deriveKeys :: "KDF \<Rightarrow> bytes \<Rightarrow> bytes \<Rightarrow> failure + keys \<times> bytes" where
  "deriveKeys h ikm_bytes ctx =
     (let prk = Extract h [] ikm_bytes in
      case deriveSecret h prk TagHandshake ctx of
        Inl f \<Rightarrow> Inl f
      | Inr hs \<Rightarrow>
     (case deriveSecret h prk TagSession ctx of
        Inl f \<Rightarrow> Inl f
      | Inr sessionSecret \<Rightarrow>
     (case expandLabel h hs TagMacServer [] of
        Inl f \<Rightarrow> Inl f
      | Inr smk \<Rightarrow>
     (case expandLabel h hs TagMacClient [] of
        Inl f \<Rightarrow> Inl f
      | Inr cmk \<Rightarrow>
     (case expandLabel h hs TagEncServer [] of
        Inl f \<Rightarrow> Inl f
      | Inr hek \<Rightarrow>
          Inr (\<lparr>serverMacKey = smk, clientMacKey = cmk, handshakeSecret = hs,
                handshakeEncryptKey = hek\<rparr>, sessionSecret))))))"

definition decodeKeys ::
  "('s, 'e) Group \<Rightarrow> bytes \<Rightarrow> bytes \<Rightarrow> bytes \<Rightarrow> failure + 's \<times> 'e \<times> 'e" where
  "decodeKeys g secret peerEpk peerPk =
     (case DecodeScalar g secret of
        None \<Rightarrow> Inl (Err DecodingSecretKey)
      | Some sk \<Rightarrow>
          (case DecodeElement g peerEpk of
             None \<Rightarrow> Inl (Err DecodingPeerEphemeralPublicKey)
           | Some epk \<Rightarrow>
               (case DecodeElement g peerPk of
                  None \<Rightarrow> Inl (Err DecodingPeerPublicKey)
                | Some pk \<Rightarrow> Inr (sk, epk, pk))))"

definition k3dh ::
  "('s, 'e) Group \<Rightarrow> 'e \<Rightarrow> 's \<Rightarrow> 'e \<Rightarrow> 's \<Rightarrow> 'e \<Rightarrow> 's \<Rightarrow> bytes" where
  "k3dh g p1 s1 p2 s2 p3 s3 =
     (let e1 = Mult g p1 s1; e2 = Mult g p2 s2; e3 = Mult g p3 s3
      in Concatenate 0 [Bytes g e1, Bytes g e2, Bytes g e3])"

definition ikm ::
  "selector \<Rightarrow> ('s, 'e) Group \<Rightarrow> 's \<Rightarrow> bytes \<Rightarrow> bytes \<Rightarrow> bytes \<Rightarrow> failure + bytes" where
  "ikm s g esk secretKey peerEpk peerPublicKey =
     (case decodeKeys g secretKey peerEpk peerPublicKey of
        Inl f \<Rightarrow> Inl f
      | Inr (sk, epk, gpk) \<Rightarrow>
          if s = client then Inr (k3dh g epk esk gpk esk epk sk)
          else if s = server then Inr (k3dh g epk esk epk sk gpk esk)
          else Inl (Panic InvalidSelector))"

definition cryptInfo :: "('s, 'e) Parameters \<Rightarrow> bytes \<Rightarrow> bytes \<Rightarrow> bytes" where
  "cryptInfo p key info_in =
     (if length info_in \<noteq> 0
      then (let pad = Expand (KDF p) key EncryptionTag (length info_in) in Xor pad info_in)
      else [])"

definition getServerMac ::
  "('s, 'e) Parameters \<Rightarrow> bytes \<Rightarrow> bytes \<Rightarrow> (failure + bytes) \<times> ('s, 'e) Parameters" where
  "getServerMac p key einfo =
     (case EncodeVector einfo of
        Inl f \<Rightarrow> (Inl f, p)
      | Inr v \<Rightarrow>
          (let p' = p\<lparr>Hash := Write (Hash p) v\<rparr>
           in (Inr (Mac.MAC (MAC p') key (Sum (Hash p'))), p')))"

record output3DH =
  info :: bytes
  serverMac :: bytes
  clientMac :: bytes

definition core3DH ::
  "selector \<Rightarrow> ('s, 'e) Parameters \<Rightarrow> 's \<Rightarrow> bytes \<Rightarrow> bytes \<Rightarrow> bytes \<Rightarrow>
   bytes \<Rightarrow> bytes \<Rightarrow> bytes \<Rightarrow> bytes \<Rightarrow> bytes \<Rightarrow> bytes \<Rightarrow> KE1 \<Rightarrow>
   (failure + output3DH \<times> bytes) \<times> ('s, 'e) Parameters" where
  "core3DH s p esk secretKey peerEpk peerPublicKey epks idu ids nonceS credResp info_in ke1 =
     (case ikm s (AKEGroup p) esk secretKey peerEpk peerPublicKey of
        Inl f \<Rightarrow> (Inl f, p)
      | Inr ikm_bytes \<Rightarrow>
     (case newInfo (Hash p) ke1 idu ids credResp nonceS epks of
        (Inl f, h1) \<Rightarrow> (Inl f, p\<lparr>Hash := h1\<rparr>)
      | (Inr u, h1) \<Rightarrow>
     (let p1 = p\<lparr>Hash := h1\<rparr> in
      case deriveKeys (KDF p1) ikm_bytes (Sum (Hash p1)) of
        Inl f \<Rightarrow> (Inl f, p1)
      | Inr (ks, sessionSecret) \<Rightarrow>
     (let st_info = cryptInfo p1 (handshakeEncryptKey ks) info_in in
      case (if s = client then getServerMac p1 (serverMacKey ks) info_in
            else if s = server then getServerMac p1 (serverMacKey ks) st_info
            else (Inl (Panic InvalidSelector), p1)) of
        (Inl f, p2) \<Rightarrow> (Inl f, p2)
      | (Inr st_serverMac, p2) \<Rightarrow>
     (let p3 = p2\<lparr>Hash := Write (Hash p2) st_serverMac\<rparr>;
          transcript3 = Sum (Hash p3);
          st_clientMac = Mac.MAC (MAC p3) (clientMacKey ks) transcript3
      in (Inr (\<lparr>info = st_info, serverMac = st_serverMac, clientMac = st_clientMac\<rparr>,
               sessionSecret), p3))))))"

section \<open>Contracts of the primitives and the spec's notation\<close>

text \<open>
  What the claims take from the primitives. In a group, multiplying the base point by
  two scalars gives one element in either order. A KDF returns as many bytes as it is
  asked for. A digest is short enough for a 1-byte length prefix (no hash of the
  library is longer than 64 bytes).
\<close>

definition dh_commutes :: "('s, 'e) Group \<Rightarrow> bool" where
  "dh_commutes g \<longleftrightarrow>
     (\<forall>a b. Mult g (Mult g (Base g) a) b = Mult g (Mult g (Base g) b) a)"

definition expand_length :: "KDF \<Rightarrow> bool" where
  "expand_length h \<longleftrightarrow> (\<forall>key lbl L. length (Expand h key lbl L) = L)"

definition digest_short :: "Hash \<Rightarrow> bool" where
  "digest_short h \<longleftrightarrow> (\<forall>m. length (digest h m) < 256)"

text \<open>
  The spec's \<open>Vec1\<close> and \<open>Vec2\<close>: a byte string after its length in one byte, or in
  two bytes, most significant first. \<open>I2OSP2\<close> is the 2-byte encoding of a number.
\<close>

definition I2OSP2 :: "nat \<Rightarrow> bytes" where
  "I2OSP2 n = [of_nat (n div 256), of_nat n]"

definition Vec1 :: "bytes \<Rightarrow> bytes" where
  "Vec1 b = of_nat (length b) # b"

definition Vec2 :: "bytes \<Rightarrow> bytes" where
  "Vec2 b = I2OSP2 (length b) @ b"

text \<open>The transcript of section 4.4, before the encrypted info.\<close>

definition transcript ::
  "bytes \<Rightarrow> KE1 \<Rightarrow> bytes \<Rightarrow> bytes \<Rightarrow> bytes \<Rightarrow> bytes \<Rightarrow> bytes" where
  "transcript idu ke1 ids credResp nonceS epks =
     Tag3DH @ Vec2 idu @ KE1_Serialize ke1 @ Vec2 ids @ credResp @ nonceS @ epks"

text \<open>
  The HKDF info as the specification words it, the output length last, and as the
  draft's structured label has it, the output length first.
\<close>

definition info_length_last :: "nat \<Rightarrow> bytes \<Rightarrow> bytes \<Rightarrow> bytes" where
  "info_length_last len label ctx = Vec1 (LabelPrefix @ label) @ Vec1 ctx @ I2OSP2 len"

definition info_length_first :: "nat \<Rightarrow> bytes \<Rightarrow> bytes \<Rightarrow> bytes" where
  "info_length_first len label ctx = I2OSP2 len @ Vec1 (LabelPrefix @ label) @ Vec1 ctx"

text \<open>The key schedule of section 4.4 on the KDF itself, every info spelled out.\<close>

definition schedule :: "KDF \<Rightarrow> bytes \<Rightarrow> bytes \<Rightarrow> keys \<times> bytes" where
  "schedule h ikm_bytes ctx =
     (let prk = Extract h [] ikm_bytes;
          hs = Expand h prk (info_length_first (Size h) TagHandshake ctx) (Size h)
      in (\<lparr>serverMacKey = Expand h hs (info_length_first (Size h) TagMacServer []) (Size h),
           clientMacKey = Expand h hs (info_length_first (Size h) TagMacClient []) (Size h),
           handshakeSecret = hs,
           handshakeEncryptKey = Expand h hs (info_length_first (Size h) TagEncServer []) (Size h)\<rparr>,
          Expand h prk (info_length_first (Size h) TagSession ctx) (Size h)))"

text \<open>
  The spec's DH(P, s), the encoding of the element P multiplied by the scalar s, and the
  public key of a secret scalar.
\<close>

definition DH :: "('s, 'e) Group \<Rightarrow> 'e \<Rightarrow> 's \<Rightarrow> bytes" where
  "DH g P s = Bytes g (Mult g P s)"

definition public_of :: "('s, 'e) Group \<Rightarrow> 's \<Rightarrow> 'e" where
  "public_of g sk = Mult g (Base g) sk"

section \<open>A small instance\<close>

text \<open>
  The integers modulo the prime 251 under addition, with multiplication modulo 251 as
  the scalar multiplication and one byte per scalar and element; a KDF, a MAC and a
  hash that only rearrange or add up their input. They serve to evaluate the functions above.
\<close>

definition decode251 :: "bytes \<Rightarrow> nat option" where
  "decode251 b =
     (case b of
        [x] \<Rightarrow> if unat x < 251 then Some (unat x) else None
      | _ \<Rightarrow> None)"

definition Z251 :: "(nat, nat) Group" where
  "Z251 = \<lparr>Base = 2, Mult = (\<lambda>e s. e * s mod 251), DecodeScalar = decode251,
           DecodeElement = decode251, Bytes = (\<lambda>e. [of_nat e])\<rparr>"

definition padKDF :: KDF where
  "padKDF = \<lparr>Extract = (\<lambda>salt m. salt @ m),
             Expand = (\<lambda>prk lbl L. replicate L (foldr (+) (prk @ lbl) 0)), Size = 4\<rparr>"

definition echoKDF :: KDF where
  "echoKDF = \<lparr>Extract = (\<lambda>salt m. m), Expand = (\<lambda>prk lbl L. lbl), Size = 32\<rparr>"

definition catMac :: Mac where
  "catMac = \<lparr>Mac.MAC = (\<lambda>key msg. key @ msg)\<rparr>"

definition lenHash :: Hash where
  "lenHash = \<lparr>digest = (\<lambda>m. [of_nat (length m), foldr (+) m 0]), absorbed = []\<rparr>"

definition smallParameters :: "(nat, nat) Parameters" where
  "smallParameters = \<lparr>KDF = padKDF, MAC = catMac, Hash = lenHash, AKEGroup = Z251\<rparr>"

definition sampleConfiguration :: Configuration where
  "sampleConfiguration = \<lparr>OprfGroup = 1, Configuration.KDF = 4, Configuration.MAC = 4,
     Configuration.Hash = 4, MHF = 2, Mode = 1, Configuration.AKEGroup = 1, NonceLen = 32\<rparr>"

definition sampleKE1 :: KE1 where
  "sampleKE1 = \<lparr>credential_request = [1], client_nonce = [2], client_ephemeral_public = [10]\<rparr>"

text \<open>Two random sources that draw differently.\<close>

definition zeroRandom :: "nat Random" where
  "zeroRandom = \<lparr>RandomScalar = 0, RandomBytes = (\<lambda>n. replicate (nat n) 0)\<rparr>"

definition onesRandom :: "nat Random" where
  "onesRandom = \<lparr>RandomScalar = 1, RandomBytes = (\<lambda>n. replicate (nat n) 255)\<rparr>"

section \<open>Auxiliary lemmas: the encoders\<close>

lemma byte_of_nat_mod: "(of_nat (n mod 256) :: byte) = of_nat n"
  by (simp add: word_of_nat_eq_iff take_bit_eq_mod)

lemma big_endian_2: "big_endian 2 n = I2OSP2 n"
  by (simp add: numeral_2_eq_2 I2OSP2_def byte_of_nat_mod)

lemma big_endian_1: "big_endian 1 n = [of_nat n]"
  by (simp add: byte_of_nat_mod)

lemma I2OSP_two:
  "I2OSP (int n) 2 = (if n < 65536 then Inr (I2OSP2 n) else Inl (Panic EncodingFailure))"
  by (simp add: I2OSP_def big_endian_2)

lemma EncodeVectorLen_one:
  "EncodeVectorLen b (Suc 0) = (if length b < 256 then Inr (Vec1 b) else Inl (Panic EncodingFailure))"
  by (simp add: EncodeVectorLen_def I2OSP_def Vec1_def)

lemma EncodeVectorLen_two:
  "EncodeVectorLen b 2 = (if length b < 65536 then Inr (Vec2 b) else Inl (Panic EncodingFailure))"
  by (simp add: EncodeVectorLen_def I2OSP_two Vec2_def)

lemma uint_byte_of_int: "0 \<le> n \<Longrightarrow> n \<le> 255 \<Longrightarrow> uint (of_int n :: byte) = n"
  by (simp add: uint_word_of_int take_bit_eq_mod)

lemma Serialize_eq:
  fixes c :: Configuration
  assumes "0 \<le> NonceLen c" "NonceLen c \<le> 255"
  shows "Serialize c = Inr [OprfGroup c, Configuration.KDF c, Configuration.MAC c,
           Configuration.Hash c, MHF c, Mode c, Configuration.AKEGroup c, of_int (NonceLen c)]"
  using assms by (simp add: Serialize_def I2OSP_def big_endian_1)

lemma Xor_length: "length (Xor a b) = min (length a) (length b)"
  by (simp add: Xor_def)

lemma Xor_commute: "Xor a b = Xor b a"
proof (induction a arbitrary: b)
  case Nil
  then show ?case by (simp add: Xor_def)
next
  case (Cons x xs)
  then show ?case by (cases b) (simp_all add: Xor_def xor.commute)
qed

lemma Xor_twice: "length pad = length m \<Longrightarrow> Xor pad (Xor pad m) = m"
proof (induction pad m rule: list_induct2)
  case Nil
  then show ?case by (simp add: Xor_def)
next
  case (Cons x xs y ys)
  have "x XOR (x XOR y) = y" by (simp flip: xor.assoc)
  with Cons show ?case by (simp add: Xor_def)
qed

section \<open>Auxiliary lemmas: the steps of the core\<close>

lemma length_LabelPrefix: "length LabelPrefix = 7"
  by (simp add: LabelPrefix_def bytes_of_def)

lemma length_tags:
  "length TagHandshake < 249" "length TagSession < 249" "length TagMacServer < 249"
  "length TagMacClient < 249" "length TagEncServer < 249"
  by (simp_all add: TagHandshake_def TagSession_def TagMacServer_def TagMacClient_def
      TagEncServer_def bytes_of_def)

lemma buildLabel_eq:
  "buildLabel len label ctx =
     (if len < 65536 \<and> length (LabelPrefix @ label) < 256 \<and> length ctx < 256
      then Inr (info_length_first len label ctx) else Inl (Panic EncodingFailure))"
  by (simp add: buildLabel_def I2OSP_two EncodeVectorLen_one Concatenate_def info_length_first_def)

lemma expandLabel_eq:
  "expandLabel h secret label ctx =
     (if Size h < 65536 \<and> length label < 249 \<and> length ctx < 256
      then Inr (Expand h secret (info_length_first (Size h) label ctx) (Size h))
      else Inl (Panic EncodingFailure))"
  by (simp add: expandLabel_def buildLabel_eq expand_def length_LabelPrefix)

lemma deriveKeys_eq:
  "deriveKeys h ikm_bytes ctx =
     (if Size h < 65536 \<and> length ctx < 256 then Inr (schedule h ikm_bytes ctx)
      else Inl (Panic EncodingFailure))"
  by (simp add: deriveKeys_def deriveSecret_def expandLabel_eq length_tags Let_def schedule_def)

lemma newInfo_eq:
  "newInfo h ke1 idu ids response nonceS epks =
     (if length idu < 65536 \<and> length ids < 65536
      then (Inr (), Write h (transcript idu ke1 ids response nonceS epks))
      else (Inl (Panic EncodingFailure), h))"
  by (simp add: newInfo_def EncodeVectorLen_two Concatenate_def transcript_def)

lemma getServerMac_eq:
  "getServerMac p key einfo =
     (if length einfo < 65536
      then (Inr (Mac.MAC (MAC p) key (Sum (Write (Hash p) (Vec2 einfo)))),
            p\<lparr>Hash := Write (Hash p) (Vec2 einfo)\<rparr>)
      else (Inl (Panic EncodingFailure), p))"
  by (simp add: getServerMac_def EncodeVector_def EncodeVectorLen_two Let_def)

lemma server_not_client: "(server = client) = False"
  by (simp add: client_def server_def)

lemma decodeKeys_no_panic: "decodeKeys g secret peerEpk peerPk \<noteq> Inl (Panic x)"
  by (simp add: decodeKeys_def split: option.splits)

lemma decodeKeys_Some:
  assumes "DecodeScalar g secret = Some sk" "DecodeElement g peerEpk = Some epk"
    "DecodeElement g peerPk = Some pk"
  shows "decodeKeys g secret peerEpk peerPk = Inr (sk, epk, pk)"
  using assms by (simp add: decodeKeys_def)

lemma ikm_no_panic: "ikm s g esk secretKey peerEpk peerPublicKey \<noteq> Inl (Panic x)"
  using decodeKeys_no_panic [of g secretKey peerEpk peerPublicKey x]
  by (auto simp: ikm_def client_def server_def split: sum.splits)

lemma ikm_Err_iff:
  "(\<exists>e. ikm s g esk secretKey peerEpk peerPublicKey = Inl (Err e)) \<longleftrightarrow>
     DecodeScalar g secretKey = None \<or> DecodeElement g peerEpk = None \<or>
     DecodeElement g peerPublicKey = None"
  by (auto simp: ikm_def decodeKeys_def client_def server_def split: option.splits)

lemma ikm_client_eq:
  assumes "DecodeScalar g secret = Some sk" "DecodeElement g peerEpk = Some epk"
    "DecodeElement g peerPk = Some pk"
  shows "ikm client g esk secret peerEpk peerPk = Inr (DH g epk esk @ DH g pk esk @ DH g epk sk)"
  using assms by (simp add: ikm_def decodeKeys_Some k3dh_def Concatenate_def DH_def Let_def)

lemma ikm_server_eq:
  assumes "DecodeScalar g secret = Some sk" "DecodeElement g peerEpk = Some epk"
    "DecodeElement g peerPk = Some pk"
  shows "ikm server g esk secret peerEpk peerPk = Inr (DH g epk esk @ DH g epk sk @ DH g pk esk)"
  using assms
  by (simp add: ikm_def decodeKeys_Some k3dh_def Concatenate_def DH_def Let_def client_def server_def)

lemma DH_public_commute: "dh_commutes g \<Longrightarrow> DH g (public_of g a) b = DH g (public_of g b) a"
  by (simp add: dh_commutes_def DH_def public_of_def)

lemma ikm_agree:
  assumes "dh_commutes g"
    and "DecodeScalar g skU_bytes = Some skU" "DecodeElement g pkU_bytes = Some (public_of g skU)"
    and "DecodeScalar g skS_bytes = Some skS" "DecodeElement g pkS_bytes = Some (public_of g skS)"
    and "DecodeElement g epkU_bytes = Some (public_of g eskU)"
    and "DecodeElement g epkS_bytes = Some (public_of g eskS)"
  shows "ikm server g eskS skS_bytes epkU_bytes pkU_bytes = ikm client g eskU skU_bytes epkS_bytes pkS_bytes"
  using assms
  by (simp add: ikm_client_eq ikm_server_eq DH_public_commute [of g eskS] DH_public_commute [of g skS])

lemma cryptInfo_length_le: "length (cryptInfo p key m) \<le> length m"
  by (simp add: cryptInfo_def Xor_length)

lemma cryptInfo_fits: "length m < 65536 \<Longrightarrow> length (cryptInfo p key m) < 65536"
  using cryptInfo_length_le [of p key m] by simp

lemma cryptInfo_Hash_update: "cryptInfo (p\<lparr>Hash := h\<rparr>) key m = cryptInfo p key m"
  by (simp add: cryptInfo_def)

lemma core3DH_ikm_failure:
  assumes "ikm s (AKEGroup p) esk secretKey peerEpk peerPublicKey = Inl f"
  shows "core3DH s p esk secretKey peerEpk peerPublicKey epks idu ids nonceS credResp info_in ke1
           = (Inl f, p)"
  using assms by (simp add: core3DH_def)

lemma core3DH_after_ikm:
  assumes "ikm s (AKEGroup p) esk secretKey peerEpk peerPublicKey = Inr kb"
  shows "\<exists>r p'. core3DH s p esk secretKey peerEpk peerPublicKey epks idu ids nonceS credResp
           info_in ke1 = (r, p') \<and> (\<forall>e. r \<noteq> Inl (Err e))"
  using assms
  by (auto simp: core3DH_def newInfo_eq deriveKeys_eq getServerMac_eq Let_def client_def
      server_def split: sum.splits prod.splits if_splits)

lemma core3DH_Err_iff:
  "fst (core3DH s p esk secretKey peerEpk peerPublicKey epks idu ids nonceS credResp info_in ke1)
     = Inl (Err e) \<longleftrightarrow>
   ikm s (AKEGroup p) esk secretKey peerEpk peerPublicKey = Inl (Err e)"
proof (cases "ikm s (AKEGroup p) esk secretKey peerEpk peerPublicKey")
  case (Inl f)
  then show ?thesis by (simp add: core3DH_ikm_failure)
next
  case (Inr kb)
  from core3DH_after_ikm [OF Inr, of epks idu ids nonceS credResp info_in ke1]
  show ?thesis using Inr by auto
qed

lemma core3DH_ok:
  assumes k: "ikm s (AKEGroup p) esk secretKey peerEpk peerPublicKey = Inr kb"
    and len: "length idu < 65536" "length ids < 65536" "length info_in < 65536"
    and kdf: "Size (KDF p) < 65536" and dig: "digest_short (Hash p)"
  shows "core3DH s p esk secretKey peerEpk peerPublicKey epks idu ids nonceS credResp info_in ke1 =
     (let t1 = absorbed (Hash p) @ transcript idu ke1 ids credResp nonceS epks;
          ks = fst (schedule (KDF p) kb (digest (Hash p) t1));
          st_info = cryptInfo p (handshakeEncryptKey ks) info_in;
          t2 = t1 @ Vec2 (if s = client then info_in else st_info);
          smac = Mac.MAC (MAC p) (serverMacKey ks) (digest (Hash p) t2);
          t3 = t2 @ smac
      in (Inr (\<lparr>info = st_info, serverMac = smac,
                 clientMac = Mac.MAC (MAC p) (clientMacKey ks) (digest (Hash p) t3)\<rparr>,
               snd (schedule (KDF p) kb (digest (Hash p) t1))),
          p\<lparr>Hash := (Hash p)\<lparr>absorbed := t3\<rparr>\<rparr>))"
proof -
  have d: "\<And>m. length (digest (Hash p) m) < 256"
    using dig by (simp add: digest_short_def)
  have c: "\<And>key. length (cryptInfo p key info_in) < 65536"
    using len(3) by (rule cryptInfo_fits)
  show ?thesis
    using k len kdf
    by (simp add: core3DH_def newInfo_eq deriveKeys_eq getServerMac_eq Write_def Sum_def d c
        cryptInfo_Hash_update Let_def client_def server_def split: prod.splits)
qed

section \<open>Auxiliary lemmas: the small instance\<close>

lemma Z251_commutes: "dh_commutes Z251"
  by (simp add: dh_commutes_def Z251_def mod_mult_left_eq mod_mult_right_eq ac_simps)

lemma Z251_decode:
  "DecodeScalar Z251 [7] = Some 7" "DecodeElement Z251 [14] = Some (public_of Z251 7)"
  "DecodeScalar Z251 [11] = Some 11" "DecodeElement Z251 [22] = Some (public_of Z251 11)"
  "DecodeElement Z251 [10] = Some (public_of Z251 5)"
  "DecodeElement Z251 [18] = Some (public_of Z251 9)"
  by (simp_all add: Z251_def decode251_def public_of_def)

lemma padKDF_length: "expand_length padKDF"
  by (simp add: expand_length_def padKDF_def)

lemma replicate_4: "replicate 4 x = [x, x, x, x]"
  by (simp add: numeral_eq_Suc)

lemma smallParameters_simps:
  "Parameters.KDF smallParameters = padKDF" "Parameters.MAC smallParameters = catMac"
  "Parameters.Hash smallParameters = lenHash" "Parameters.AKEGroup smallParameters = Z251"
  by (simp_all add: smallParameters_def)

lemma lenHash_short: "digest_short lenHash"
  by (simp add: digest_short_def lenHash_def)

lemma lenHash_simps:
  "absorbed lenHash = []" "digest lenHash m = [of_nat (length m), foldr (+) m 0]"
  by (simp_all add: lenHash_def)

lemma catMac_simp: "Mac.MAC catMac key msg = key @ msg"
  by (simp add: catMac_def)

lemma ikm_client_sample: "ikm client Z251 5 [7] [18] [22] = Inr [90, 110, 126]"
  by (simp add: ikm_def decodeKeys_def k3dh_def Concatenate_def Z251_def decode251_def
      client_def)

lemma ikm_server_sample: "ikm server Z251 9 [11] [10] [14] = Inr [90, 110, 126]"
  by (simp add: ikm_def decodeKeys_def k3dh_def Concatenate_def Z251_def decode251_def
      client_def server_def)

lemma sample_transcript:
  "transcript [3] sampleKE1 [4] [8] [6] [18] = [51, 68, 72, 0, 1, 3, 1, 2, 10, 0, 1, 4, 8, 6, 18]"
  by (simp add: transcript_def Vec2_def I2OSP2_def KE1_Serialize_def sampleKE1_def Tag3DH_def
      bytes_of_def)

lemma sample_schedule:
  "schedule padKDF [90, 110, 126] [15, 245] =
     (\<lparr>serverMacKey = [128, 128, 128, 128], clientMacKey = [104, 104, 104, 104],
       handshakeSecret = [75, 75, 75, 75], handshakeEncryptKey = [171, 171, 171, 171]\<rparr>,
      [102, 102, 102, 102])"
  by (simp add: schedule_def padKDF_def info_length_first_def I2OSP2_def
        Vec1_def LabelPrefix_def TagHandshake_def TagSession_def TagMacServer_def
        TagMacClient_def TagEncServer_def bytes_of_def replicate_4)

lemma sample_cryptInfo:
  "cryptInfo smallParameters [171, 171, 171, 171] [1, 2, 3] = [28, 31, 30]"
  "cryptInfo smallParameters [171, 171, 171, 171] [28, 31, 30] = [1, 2, 3]"
  by (simp_all add: cryptInfo_def smallParameters_def padKDF_def Xor_def EncryptionTag_def
        bytes_of_def numeral_3_eq_3)

lemma sample_Vec2: "Vec2 [28, 31, 30] = [0, 3, 28, 31, 30]"
  by (simp add: Vec2_def I2OSP2_def)

lemma core3DH_server_sample:
  "core3DH server smallParameters 9 [11] [10] [14] [18] [3] [4] [6] [8] [1, 2, 3] sampleKE1 =
     (Inr (\<lparr>info = [28, 31, 30], serverMac = [128, 128, 128, 128, 20, 81],
            clientMac = [104, 104, 104, 104, 26, 182]\<rparr>, [102, 102, 102, 102]),
      smallParameters\<lparr>Hash := lenHash\<lparr>absorbed :=
        [51, 68, 72, 0, 1, 3, 1, 2, 10, 0, 1, 4, 8, 6, 18, 0, 3, 28, 31, 30,
         128, 128, 128, 128, 20, 81]\<rparr>\<rparr>)"
proof -
  have k: "ikm server (Parameters.AKEGroup smallParameters) 9 [11] [10] [14] = Inr [90, 110, 126]"
    by (simp add: smallParameters_simps ikm_server_sample)
  have d: "digest_short (Parameters.Hash smallParameters)"
    by (simp add: smallParameters_simps lenHash_short)
  have s: "Size (Parameters.KDF smallParameters) < 65536"
    by (simp add: smallParameters_simps padKDF_def)
  have l: "length [3::byte] < 65536" "length [4::byte] < 65536" "length [1, 2, 3::byte] < 65536"
    by simp_all
  show ?thesis
    by (simp add: core3DH_ok [OF k l s d] smallParameters_simps lenHash_simps catMac_simp
        sample_transcript sample_schedule sample_cryptInfo sample_Vec2 server_not_client
        Let_def)
qed

lemma core3DH_client_sample:
  "core3DH client smallParameters 5 [7] [18] [22] [18] [3] [4] [6] [8] [28, 31, 30] sampleKE1 =
     (Inr (\<lparr>info = [1, 2, 3], serverMac = [128, 128, 128, 128, 20, 81],
            clientMac = [104, 104, 104, 104, 26, 182]\<rparr>, [102, 102, 102, 102]),
      smallParameters\<lparr>Hash := lenHash\<lparr>absorbed :=
        [51, 68, 72, 0, 1, 3, 1, 2, 10, 0, 1, 4, 8, 6, 18, 0, 3, 28, 31, 30,
         128, 128, 128, 128, 20, 81]\<rparr>\<rparr>)"
proof -
  have k: "ikm client (Parameters.AKEGroup smallParameters) 5 [7] [18] [22] = Inr [90, 110, 126]"
    by (simp add: smallParameters_simps ikm_client_sample)
  have d: "digest_short (Parameters.Hash smallParameters)"
    by (simp add: smallParameters_simps lenHash_short)
  have s: "Size (Parameters.KDF smallParameters) < 65536"
    by (simp add: smallParameters_simps padKDF_def)
  have l: "length [3::byte] < 65536" "length [4::byte] < 65536"
    "length [28, 31, 30::byte] < 65536"
    by simp_all
  show ?thesis
    by (simp add: core3DH_ok [OF k l s d] smallParameters_simps lenHash_simps catMac_simp
        sample_transcript sample_schedule sample_cryptInfo sample_Vec2 Let_def)
qed

section \<open>C1: both sides derive the same session secret\<close>

text \<open>
  C1. In a group where multiplying the base point by two scalars commutes, with every
  public key the base point times its secret scalar, the same transcript inputs and the
  same parameters and hash state on both sides, and all lengths fitting their prefixes:
  \<open>core3DH\<close> with the client selector (skU, eskU, epkS, pkS) and \<open>core3DH\<close> with
  the server selector (skS, eskS, epkU, pkU) both return, with equal session secrets;
  and when the info given to the client is the info the server produced, the two sides
  also compute equal server MACs and equal client MACs.
\<close>

theorem session_key_agreement:
  assumes grp: "dh_commutes (AKEGroup p)"
    and skU: "DecodeScalar (AKEGroup p) skU_bytes = Some skU"
    and pkU: "DecodeElement (AKEGroup p) pkU_bytes = Some (public_of (AKEGroup p) skU)"
    and skS: "DecodeScalar (AKEGroup p) skS_bytes = Some skS"
    and pkS: "DecodeElement (AKEGroup p) pkS_bytes = Some (public_of (AKEGroup p) skS)"
    and epkU: "DecodeElement (AKEGroup p) epkU_bytes = Some (public_of (AKEGroup p) eskU)"
    and epkS: "DecodeElement (AKEGroup p) epkS_bytes = Some (public_of (AKEGroup p) eskS)"
    and idu: "length idu < 65536" and ids: "length ids < 65536"
    and info_c: "length info_c < 65536" and info_s: "length info_s < 65536"
    and kdf: "Size (KDF p) < 65536" and dig: "digest_short (Hash p)"
  shows "\<exists>outC outS k pC pS.
     core3DH client p eskU skU_bytes epkS_bytes pkS_bytes epks idu ids nonceS credResp info_c ke1
       = (Inr (outC, k), pC) \<and>
     core3DH server p eskS skS_bytes epkU_bytes pkU_bytes epks idu ids nonceS credResp info_s ke1
       = (Inr (outS, k), pS) \<and>
     (info_c = info outS \<longrightarrow>
        serverMac outC = serverMac outS \<and> clientMac outC = clientMac outS)"
proof -
  obtain kb where c: "ikm client (AKEGroup p) eskU skU_bytes epkS_bytes pkS_bytes = Inr kb"
    using ikm_client_eq [OF skU epkS pkS] by blast
  have s: "ikm server (AKEGroup p) eskS skS_bytes epkU_bytes pkU_bytes = Inr kb"
    using ikm_agree [OF grp skU pkU skS pkS epkU epkS] c by simp
  show ?thesis
    by (simp add: core3DH_ok [OF c idu ids info_c kdf dig]
        core3DH_ok [OF s idu ids info_s kdf dig] Let_def server_not_client)
qed

theorem session_key_agreement_witness:
  "fst (core3DH client smallParameters 5 [7] [18] [22] [18] [3] [4] [6] [8] [28, 31, 30]
          sampleKE1) =
     Inr (\<lparr>info = [1, 2, 3], serverMac = [128, 128, 128, 128, 20, 81],
           clientMac = [104, 104, 104, 104, 26, 182]\<rparr>, [102, 102, 102, 102]) \<and>
   fst (core3DH server smallParameters 9 [11] [10] [14] [18] [3] [4] [6] [8] [1, 2, 3]
          sampleKE1) =
     Inr (\<lparr>info = [28, 31, 30], serverMac = [128, 128, 128, 128, 20, 81],
           clientMac = [104, 104, 104, 104, 26, 182]\<rparr>, [102, 102, 102, 102])"
proof -
  have g: "dh_commutes (Parameters.AKEGroup smallParameters)"
    by (simp add: smallParameters_simps Z251_commutes)
  have d: "digest_short (Parameters.Hash smallParameters)"
    by (simp add: smallParameters_simps lenHash_short)
  have s: "Size (Parameters.KDF smallParameters) < 65536"
    by (simp add: smallParameters_simps padKDF_def)
  have l: "length [3::byte] < 65536" "length [4::byte] < 65536"
    "length [28, 31, 30::byte] < 65536" "length [1, 2, 3::byte] < 65536"
    by simp_all
  note dec = Z251_decode [folded smallParameters_simps(4)]
  from session_key_agreement [OF g dec l s d, of "[18]" "[6]" "[8]" sampleKE1]
  have "\<exists>outC kC pC. core3DH client smallParameters 5 [7] [18] [22] [18] [3] [4] [6] [8]
      [28, 31, 30] sampleKE1 = (Inr (outC, kC), pC)"
    by blast
  then show ?thesis
    by (simp add: core3DH_server_sample core3DH_client_sample)
qed

section \<open>C2: the HKDF info of expandLabel\<close>

text \<open>
  C2 as it is stated fails: with a KDF whose \<open>Expand\<close> returns the info it is given,
  \<open>expandLabel\<close> for the label SessionKey and an empty context does not return the
  info with the output length last.
\<close>

theorem expandLabel_info_counterexample:
  "expandLabel echoKDF [] TagSession [] \<noteq>
     Inr (Expand echoKDF [] (info_length_last (Size echoKDF) TagSession []) (Size echoKDF))"
  by (simp add: expandLabel_eq echoKDF_def info_length_last_def info_length_first_def
      I2OSP2_def Vec1_def TagSession_def LabelPrefix_def bytes_of_def)

text \<open>
  C2, amended. For every KDF whose output size is below 65536, every secret, every label
  of at most 248 bytes (255 with the prefix) and every context of at most 255 bytes, the
  HKDF info that \<open>expandLabel\<close> passes to \<open>Expand\<close> is the output length in two
  bytes, then the prefixed label after its 1-byte length, then the context after its
  1-byte length, in exactly that order.
\<close>

theorem expandLabel_info:
  assumes "Size h < 65536" "length label \<le> 248" "length ctx \<le> 255"
  shows "expandLabel h secret label ctx =
           Inr (Expand h secret
                  (I2OSP2 (Size h) @ Vec1 (LabelPrefix @ label) @ Vec1 ctx) (Size h)) \<and>
         buildLabel (Size h) label ctx =
           Inr (I2OSP2 (Size h) @ Vec1 (LabelPrefix @ label) @ Vec1 ctx)"
  using assms
  by (simp add: expandLabel_def expand_def buildLabel_eq length_LabelPrefix info_length_first_def)

theorem expandLabel_info_witness:
  "expandLabel echoKDF [1, 2] TagSession [9] =
     Inr ([0, 32] @ [17] @ bytes_of ''OPAQUE-SessionKey'' @ [1, 9])"
  using expandLabel_info [of echoKDF TagSession "[9]" "[1, 2]"]
  by (simp add: echoKDF_def I2OSP2_def Vec1_def TagSession_def LabelPrefix_def bytes_of_def)

section \<open>C3: both sides compute the same input keying material\<close>

text \<open>
  C3. In a group where multiplying the base point by two scalars commutes, with every
  public key the base point times its secret scalar, \<open>ikm\<close> with the client selector
  returns DH(epkS, eskU), DH(pkS, eskU), DH(epkS, skU) concatenated, \<open>ikm\<close> with the
  server selector returns DH(epkU, eskS), DH(epkU, skS), DH(pkU, eskS) concatenated, and
  the two byte strings are the same.
\<close>

theorem ikm_symmetry:
  assumes "dh_commutes g"
    and "DecodeScalar g skU_bytes = Some skU" "DecodeElement g pkU_bytes = Some (public_of g skU)"
    and "DecodeScalar g skS_bytes = Some skS" "DecodeElement g pkS_bytes = Some (public_of g skS)"
    and "DecodeElement g epkU_bytes = Some (public_of g eskU)"
    and "DecodeElement g epkS_bytes = Some (public_of g eskS)"
  shows "ikm client g eskU skU_bytes epkS_bytes pkS_bytes =
           Inr (DH g (public_of g eskS) eskU @ DH g (public_of g skS) eskU @ DH g (public_of g eskS) skU) \<and>
         ikm server g eskS skS_bytes epkU_bytes pkU_bytes =
           Inr (DH g (public_of g eskU) eskS @ DH g (public_of g eskU) skS @ DH g (public_of g skU) eskS) \<and>
         ikm client g eskU skU_bytes epkS_bytes pkS_bytes =
           ikm server g eskS skS_bytes epkU_bytes pkU_bytes"
  using assms ikm_agree [OF assms]
  by (simp add: ikm_client_eq ikm_server_eq)

theorem ikm_symmetry_witness:
  "ikm client Z251 5 [7] [18] [22] = Inr [90, 110, 126] \<and>
   ikm server Z251 9 [11] [10] [14] = Inr [90, 110, 126]"
  using ikm_symmetry [OF Z251_commutes Z251_decode]
  by (simp add: DH_def public_of_def Z251_def)

section \<open>C4: the transcript\<close>

text \<open>
  C4. Whenever the three keys decode and the lengths fit their prefixes, \<open>core3DH\<close>
  returns, and the transcript hash has absorbed, after what it held before, exactly
  Tag3DH, Vec2(client identity), KE1, Vec2(server identity), the credential response,
  the server nonce and the server's ephemeral public key, in that order; then
  Vec2(einfo), where einfo is the info the client was given or the info the server
  produced; then the server MAC. The server MAC is the MAC under the server MAC key of
  the digest after Vec2(einfo), and the client MAC is the MAC under the client MAC key of
  the digest after the server MAC, both keys from \<open>deriveKeys\<close> on the digest of the
  transcript before the info.
\<close>

theorem transcript_discipline:
  assumes "ikm s (AKEGroup p) esk secretKey peerEpk peerPublicKey = Inr kb"
    and "length idu < 65536" "length ids < 65536" "length info_in < 65536"
    and "Size (KDF p) < 65536" and "digest_short (Hash p)"
  shows "\<exists>out sessionSecret p' ks.
     core3DH s p esk secretKey peerEpk peerPublicKey epks idu ids nonceS credResp info_in ke1
       = (Inr (out, sessionSecret), p') \<and>
     deriveKeys (KDF p) kb
        (digest (Hash p) (absorbed (Hash p) @ transcript idu ke1 ids credResp nonceS epks))
       = Inr (ks, sessionSecret) \<and>
     serverMac out = Mac.MAC (MAC p) (serverMacKey ks)
        (digest (Hash p) (absorbed (Hash p) @ transcript idu ke1 ids credResp nonceS epks @
           Vec2 (if s = client then info_in else info out))) \<and>
     clientMac out = Mac.MAC (MAC p) (clientMacKey ks)
        (digest (Hash p) (absorbed (Hash p) @ transcript idu ke1 ids credResp nonceS epks @
           Vec2 (if s = client then info_in else info out) @ serverMac out)) \<and>
     absorbed (Hash p') =
        absorbed (Hash p) @ transcript idu ke1 ids credResp nonceS epks @
           Vec2 (if s = client then info_in else info out) @ serverMac out \<and>
     digest (Hash p') = digest (Hash p)"
proof -
  have d: "length (digest (Hash p)
      (absorbed (Hash p) @ transcript idu ke1 ids credResp nonceS epks)) < 256"
    using assms(6) by (simp add: digest_short_def)
  show ?thesis
    using assms(5) d
    by (simp add: core3DH_ok [OF assms] deriveKeys_eq Let_def prod_eq_iff)
qed

theorem transcript_discipline_witness:
  "core3DH server smallParameters 9 [11] [10] [14] [18] [3] [4] [6] [8] [1, 2, 3] sampleKE1 =
     (Inr (\<lparr>info = [28, 31, 30], serverMac = [128, 128, 128, 128, 20, 81],
            clientMac = [104, 104, 104, 104, 26, 182]\<rparr>, [102, 102, 102, 102]),
      smallParameters\<lparr>Hash := lenHash\<lparr>absorbed :=
        bytes_of ''3DH'' @ [0, 1, 3] @ [1, 2, 10] @ [0, 1, 4] @ [8] @ [6] @ [18] @
        [0, 3, 28, 31, 30] @ [128, 128, 128, 128, 20, 81]\<rparr>\<rparr>)"
proof -
  have k: "ikm server (Parameters.AKEGroup smallParameters) 9 [11] [10] [14] = Inr [90, 110, 126]"
    by (simp add: smallParameters_simps ikm_server_sample)
  have d: "digest_short (Parameters.Hash smallParameters)"
    by (simp add: smallParameters_simps lenHash_short)
  have s: "Size (Parameters.KDF smallParameters) < 65536"
    by (simp add: smallParameters_simps padKDF_def)
  have l: "length [3::byte] < 65536" "length [4::byte] < 65536" "length [1, 2, 3::byte] < 65536"
    by simp_all
  from transcript_discipline [OF k l s d, of "[18]" "[6]" "[8]" sampleKE1]
  have "\<exists>r p'. core3DH server smallParameters 9 [11] [10] [14] [18] [3] [4] [6] [8] [1, 2, 3]
      sampleKE1 = (Inr r, p')"
    by blast
  then show ?thesis
    by (simp add: core3DH_server_sample bytes_of_def)
qed

section \<open>C5: the key schedule\<close>

text \<open>
  C5. With a KDF that returns as many bytes as it is asked for and whose size is below
  65536, and a context of at most 255 bytes: \<open>deriveKeys\<close> returns, with
  prk = Extract (empty salt) ikm, the handshake secret expandLabel prk TagHandshake
  context, the session secret expandLabel prk TagSession context, and the server MAC key,
  the client MAC key and the handshake encryption key expandLabel handshake_secret with
  the tags TagMacServer, TagMacClient and TagEncServer and an empty context; each of the
  five is Size bytes long.
\<close>

theorem deriveKeys_schedule:
  assumes "expand_length h" "Size h < 65536" "length ctx \<le> 255"
  shows "\<exists>ks sessionSecret.
           deriveKeys h ikm_bytes ctx = Inr (ks, sessionSecret) \<and>
           expandLabel h (Extract h [] ikm_bytes) TagHandshake ctx = Inr (handshakeSecret ks) \<and>
           expandLabel h (Extract h [] ikm_bytes) TagSession ctx = Inr sessionSecret \<and>
           expandLabel h (handshakeSecret ks) TagMacServer [] = Inr (serverMacKey ks) \<and>
           expandLabel h (handshakeSecret ks) TagMacClient [] = Inr (clientMacKey ks) \<and>
           expandLabel h (handshakeSecret ks) TagEncServer [] = Inr (handshakeEncryptKey ks) \<and>
           length (handshakeSecret ks) = Size h \<and> length sessionSecret = Size h \<and>
           length (serverMacKey ks) = Size h \<and> length (clientMacKey ks) = Size h \<and>
           length (handshakeEncryptKey ks) = Size h"
  using assms
  by (simp add: deriveKeys_eq schedule_def expandLabel_eq length_tags expand_length_def Let_def)

theorem deriveKeys_schedule_witness:
  "expand_length padKDF \<and> Size padKDF < 65536 \<and>
   deriveKeys padKDF [90, 110, 126] [7, 7] =
     Inr (\<lparr>serverMacKey = [168, 168, 168, 168], clientMacKey = [144, 144, 144, 144],
           handshakeSecret = [85, 85, 85, 85], handshakeEncryptKey = [211, 211, 211, 211]\<rparr>,
          [112, 112, 112, 112])"
proof -
  have s: "Size padKDF < 65536"
    by (simp add: padKDF_def)
  have v: "deriveKeys padKDF [90, 110, 126] [7, 7] =
     Inr (\<lparr>serverMacKey = [168, 168, 168, 168], clientMacKey = [144, 144, 144, 144],
           handshakeSecret = [85, 85, 85, 85], handshakeEncryptKey = [211, 211, 211, 211]\<rparr>,
          [112, 112, 112, 112])"
    by (simp add: deriveKeys_eq schedule_def padKDF_def info_length_first_def I2OSP2_def
        Vec1_def LabelPrefix_def TagHandshake_def TagSession_def TagMacServer_def
        TagMacClient_def TagEncServer_def bytes_of_def replicate_4)
  from deriveKeys_schedule [OF padKDF_length s, of "[7, 7]" "[90, 110, 126]"]
  have "\<exists>ks ss. deriveKeys padKDF [90, 110, 126] [7, 7] = Inr (ks, ss)"
    by auto
  with padKDF_length s v show ?thesis by simp
qed

section \<open>C6: the configuration round trip\<close>

text \<open>
  C6. For every configuration whose nonce length is between 0 and 255, \<open>Serialize\<close>
  returns exactly 8 bytes, the seven identifiers in the order of the structure, one byte
  each, then the nonce length in one byte, and \<open>DeserializeConfiguration\<close> of these
  bytes succeeds and returns the configuration. For every byte string,
  \<open>DeserializeConfiguration\<close> returns the invalid-length error if and only if the
  string is not 8 bytes long.
\<close>

theorem configuration_roundtrip:
  fixes c :: Configuration
  shows "(0 \<le> NonceLen c \<and> NonceLen c \<le> 255 \<longrightarrow>
      Serialize c = Inr [OprfGroup c, Configuration.KDF c, Configuration.MAC c,
           Configuration.Hash c, MHF c, Mode c, Configuration.AKEGroup c, of_int (NonceLen c)] \<and>
      (\<exists>b. Serialize c = Inr b \<and> length b = 8 \<and> DeserializeConfiguration b = Inr c)) \<and>
   (DeserializeConfiguration b' = Inl (Err InvalidLength) \<longleftrightarrow> length b' \<noteq> 8)"
proof (intro conjI impI)
  assume range: "0 \<le> NonceLen c \<and> NonceLen c \<le> 255"
  then show ser: "Serialize c = Inr [OprfGroup c, Configuration.KDF c, Configuration.MAC c,
           Configuration.Hash c, MHF c, Mode c, Configuration.AKEGroup c, of_int (NonceLen c)]"
    by (simp add: Serialize_eq)
  have "DeserializeConfiguration [OprfGroup c, Configuration.KDF c, Configuration.MAC c,
           Configuration.Hash c, MHF c, Mode c, Configuration.AKEGroup c, of_int (NonceLen c)] = Inr c"
    using range by (simp add: DeserializeConfiguration_def OS2IP_def uint_byte_of_int)
  with ser show "\<exists>b. Serialize c = Inr b \<and> length b = 8 \<and> DeserializeConfiguration b = Inr c"
    by simp
next
  show "DeserializeConfiguration b' = Inl (Err InvalidLength) \<longleftrightarrow> length b' \<noteq> 8"
    by (simp add: DeserializeConfiguration_def)
qed

theorem configuration_roundtrip_witness:
  "Serialize sampleConfiguration = Inr [1, 4, 4, 4, 2, 1, 1, 32] \<and>
   DeserializeConfiguration [1, 4, 4, 4, 2, 1, 1, 32] = Inr sampleConfiguration \<and>
   DeserializeConfiguration [1, 4, 4] = Inl (Err InvalidLength)"
  using configuration_roundtrip [of sampleConfiguration "[1, 4, 4]"]
  by (auto simp: sampleConfiguration_def)

section \<open>C7: the optional info\<close>

text \<open>
  C7. With a KDF that returns as many bytes as it is asked for: \<open>cryptInfo\<close> of an
  empty info is empty; of a non-empty info it is the info XOR-ed with
  \<open>Expand key EncryptionTag (length info)\<close>; its output is as long as the info; and
  applied twice with one key it returns the info.
\<close>

theorem cryptInfo_xor:
  assumes "expand_length (KDF p)"
  shows "cryptInfo p key [] = [] \<and>
         (info_in \<noteq> [] \<longrightarrow>
            cryptInfo p key info_in =
              map2 (XOR) info_in (Expand (KDF p) key EncryptionTag (length info_in))) \<and>
         length (cryptInfo p key info_in) = length info_in \<and>
         cryptInfo p key (cryptInfo p key info_in) = info_in"
proof -
  let ?pad = "Expand (KDF p) key EncryptionTag (length info_in)"
  have len: "length ?pad = length info_in"
    using assms by (simp add: expand_length_def)
  have empty: "cryptInfo p key [] = []"
    by (simp add: cryptInfo_def)
  have val: "info_in \<noteq> [] \<longrightarrow> cryptInfo p key info_in = map2 (XOR) info_in ?pad"
    using Xor_commute [of ?pad info_in] by (simp add: cryptInfo_def Xor_def)
  have same: "length (cryptInfo p key info_in) = length info_in"
    using len by (simp add: cryptInfo_def Xor_length)
  have twice: "cryptInfo p key (cryptInfo p key info_in) = info_in"
  proof (cases "info_in = []")
    case True
    then show ?thesis by (simp add: cryptInfo_def)
  next
    case False
    then have c: "cryptInfo p key info_in = Xor ?pad info_in"
      by (simp add: cryptInfo_def)
    have "cryptInfo p key (Xor ?pad info_in) = Xor ?pad (Xor ?pad info_in)"
      using False len by (simp add: cryptInfo_def Xor_length)
    with c show ?thesis by (simp add: Xor_twice [OF len])
  qed
  from empty val same twice show ?thesis by blast
qed

theorem cryptInfo_xor_witness:
  "expand_length (Parameters.KDF smallParameters) \<and>
   cryptInfo smallParameters [1, 2] [] = [] \<and>
   cryptInfo smallParameters [1, 2] [10, 20, 30] = [126, 96, 106] \<and>
   cryptInfo smallParameters [1, 2] [126, 96, 106] = [10, 20, 30]"
proof -
  have k: "expand_length (Parameters.KDF smallParameters)"
    by (simp add: smallParameters_simps padKDF_length)
  note t = cryptInfo_xor [OF k, of "[1, 2]" "[10, 20, 30]"]
  have v: "cryptInfo smallParameters [1, 2] [10, 20, 30] = [126, 96, 106]"
    by (simp add: cryptInfo_def smallParameters_def padKDF_def Xor_def EncryptionTag_def
        bytes_of_def numeral_3_eq_3)
  from t have "cryptInfo smallParameters [1, 2] (cryptInfo smallParameters [1, 2] [10, 20, 30])
      = [10, 20, 30]"
    by blast
  then have w: "cryptInfo smallParameters [1, 2] [126, 96, 106] = [10, 20, 30]"
    by (simp only: v)
  from t have e: "cryptInfo smallParameters [1, 2] [] = []"
    by blast
  from k e v w show ?thesis by blast
qed

section \<open>C8: fixed values make the run deterministic\<close>

text \<open>
  C8. Given a scalar that is not nil and a nonce that is not empty, \<open>setValues\<close>
  returns exactly that scalar and that nonce, whatever the random source would have
  drawn; so two runs that draw differently but are given the same scalar and nonce and
  the same other inputs feed \<open>core3DH\<close> the same values and get the same output, the
  same session secret and the same transcript hash, on the client side (the nonce in
  KE1) and on the server side (the nonce as server nonce).
\<close>

theorem fixed_values_deterministic:
  assumes "nonce \<noteq> []"
  shows "setValues rnd g (Some scalar) nonce nonceLen = (scalar, nonce) \<and>
     setValues rnd' g (Some scalar) nonce nonceLen = setValues rnd g (Some scalar) nonce nonceLen \<and>
     core3DH client p (fst (setValues rnd g (Some scalar) nonce nonceLen)) secretKey peerEpk
         peerPublicKey epks idu ids nonceS credResp info_in
         (ke1\<lparr>client_nonce := snd (setValues rnd g (Some scalar) nonce nonceLen)\<rparr>) =
       core3DH client p (fst (setValues rnd' g (Some scalar) nonce nonceLen)) secretKey peerEpk
         peerPublicKey epks idu ids nonceS credResp info_in
         (ke1\<lparr>client_nonce := snd (setValues rnd' g (Some scalar) nonce nonceLen)\<rparr>) \<and>
     core3DH server p (fst (setValues rnd g (Some scalar) nonce nonceLen)) secretKey peerEpk
         peerPublicKey epks idu ids (snd (setValues rnd g (Some scalar) nonce nonceLen))
         credResp info_in ke1 =
       core3DH server p (fst (setValues rnd' g (Some scalar) nonce nonceLen)) secretKey peerEpk
         peerPublicKey epks idu ids (snd (setValues rnd' g (Some scalar) nonce nonceLen))
         credResp info_in ke1"
  using assms by (simp add: setValues_def)

theorem fixed_values_deterministic_witness:
  "setValues zeroRandom Z251 (Some 9) [6] 32 = (9, [6]) \<and>
   setValues onesRandom Z251 (Some 9) [6] 32 = (9, [6]) \<and>
   setValues zeroRandom Z251 None [] 2 = (0, [0, 0]) \<and>
   setValues onesRandom Z251 None [] 2 = (1, [255, 255])"
proof -
  have n: "[6::byte] \<noteq> []"
    by simp
  from fixed_values_deterministic [OF n, of zeroRandom Z251 9 32 onesRandom]
  have "setValues zeroRandom Z251 (Some 9) [6] 32 = (9, [6]) \<and>
      setValues onesRandom Z251 (Some 9) [6] 32 = setValues zeroRandom Z251 (Some 9) [6] 32"
    by blast
  moreover have "setValues zeroRandom Z251 None [] 2 = (0, [0, 0])"
    by (simp add: setValues_def zeroRandom_def numeral_2_eq_2)
  moreover have "setValues onesRandom Z251 None [] 2 = (1, [255, 255])"
    by (simp add: setValues_def onesRandom_def numeral_2_eq_2)
  ultimately show ?thesis by simp
qed

section \<open>C9: an error leaves the transcript hash untouched\<close>

text \<open>
  C9. \<open>core3DH\<close> returns an error if and only if its own secret key, the peer's
  ephemeral public key or the peer's public key fails to decode in the group; and when it
  returns an error, the parameters it hands back, the transcript hash among them, are
  the ones it was given.
\<close>

theorem core3DH_error_atomic:
  "((\<exists>e. fst (core3DH s p esk secretKey peerEpk peerPublicKey epks idu ids nonceS credResp
              info_in ke1) = Inl (Err e)) \<longleftrightarrow>
      DecodeScalar (AKEGroup p) secretKey = None \<or>
      DecodeElement (AKEGroup p) peerEpk = None \<or>
      DecodeElement (AKEGroup p) peerPublicKey = None) \<and>
   (fst (core3DH s p esk secretKey peerEpk peerPublicKey epks idu ids nonceS credResp
              info_in ke1) = Inl (Err e') \<longrightarrow>
      snd (core3DH s p esk secretKey peerEpk peerPublicKey epks idu ids nonceS credResp
              info_in ke1) = p)"
proof
  show "(\<exists>e. fst (core3DH s p esk secretKey peerEpk peerPublicKey epks idu ids nonceS credResp
              info_in ke1) = Inl (Err e)) \<longleftrightarrow>
      DecodeScalar (AKEGroup p) secretKey = None \<or>
      DecodeElement (AKEGroup p) peerEpk = None \<or>
      DecodeElement (AKEGroup p) peerPublicKey = None"
    by (simp add: core3DH_Err_iff ikm_Err_iff)
  show "fst (core3DH s p esk secretKey peerEpk peerPublicKey epks idu ids nonceS credResp
              info_in ke1) = Inl (Err e') \<longrightarrow>
      snd (core3DH s p esk secretKey peerEpk peerPublicKey epks idu ids nonceS credResp
              info_in ke1) = p"
    by (simp add: core3DH_Err_iff core3DH_ikm_failure)
qed

theorem core3DH_error_atomic_witness:
  "DecodeScalar (Parameters.AKEGroup smallParameters) [255] = None \<and>
   core3DH client smallParameters 5 [255] [18] [22] [18] [3] [4] [6] [8] [] sampleKE1
     = (Inl (Err DecodingSecretKey), smallParameters)"
proof -
  have d: "DecodeScalar (Parameters.AKEGroup smallParameters) [255] = None"
    by (simp add: smallParameters_def Z251_def decode251_def)
  have v: "fst (core3DH client smallParameters 5 [255] [18] [22] [18] [3] [4] [6] [8] []
      sampleKE1) = Inl (Err DecodingSecretKey)"
    using d by (simp add: core3DH_def ikm_def decodeKeys_def)
  from core3DH_error_atomic [of client smallParameters 5 "[255]" "[18]" "[22]" "[18]" "[3]"
      "[4]" "[6]" "[8]" "[]" sampleKE1 DecodingSecretKey] v
  have "snd (core3DH client smallParameters 5 [255] [18] [22] [18] [3] [4] [6] [8] []
      sampleKE1) = smallParameters"
    by blast
  with v d show ?thesis by (simp add: prod_eq_iff)
qed

section \<open>C10: the selector panic is unreachable\<close>

text \<open>
  C10. The selector is a boolean, and the switch of \<open>ikm\<close> and the switch of \<open>core3DH\<close>
  handle both of its values: for every input, neither function ends in the
  invalid-selector panic.
\<close>

theorem selector_panic_unreachable:
  "ikm s g esk secretKey peerEpk peerPublicKey \<noteq> Inl (Panic InvalidSelector) \<and>
   fst (core3DH s p esk' secretKey' peerEpk' peerPublicKey' epks idu ids nonceS credResp
          info_in ke1) \<noteq> Inl (Panic InvalidSelector)"
proof
  show "ikm s g esk secretKey peerEpk peerPublicKey \<noteq> Inl (Panic InvalidSelector)"
    by (rule ikm_no_panic)
  show "fst (core3DH s p esk' secretKey' peerEpk' peerPublicKey' epks idu ids nonceS credResp
          info_in ke1) \<noteq> Inl (Panic InvalidSelector)"
    using ikm_no_panic [of s "AKEGroup p" esk' secretKey' peerEpk' peerPublicKey' InvalidSelector]
    by (auto simp: core3DH_def newInfo_eq deriveKeys_eq getServerMac_eq Let_def client_def
        server_def split: sum.splits prod.splits if_splits)
qed

end
